theory Spec2Isabelle
  imports Complex_Main "HOL-Library.Sublist"
begin

section \<open>JavaScript string primitives used by the place store\<close>

text \<open>
  A JavaScript string is a sequence of UTF-16 code units. Here a \<^typ>\<open>char\<close> stands for
  one code unit in the range U+0000 .. U+00FF (Basic Latin and Latin-1 Supplement), read
  through \<^term>\<open>of_char\<close>; the three primitives below are the ECMAScript ones restricted
  to that range. Strings with code units above U+00FF are outside this model.
\<close>

definition isWhiteSpace :: "char \<Rightarrow> bool" where
  \<comment> \<open>ECMAScript WhiteSpace and LineTerminator below U+0100:
      TAB, LF, VT, FF, CR, SP, NBSP.\<close>
  "isWhiteSpace c =
     (let n = (of_char c :: nat)
      in n = 9 \<or> n = 10 \<or> n = 11 \<or> n = 12 \<or> n = 13 \<or> n = 32 \<or> n = 160)"

definition trim :: "string \<Rightarrow> string" where
  \<comment> \<open>\<^verbatim>\<open>String.prototype.trim\<close>: strip white space from both ends.\<close>
  "trim s = rev (dropWhile isWhiteSpace (rev (dropWhile isWhiteSpace s)))"

definition toLowerChar :: "char \<Rightarrow> char" where
  \<comment> \<open>Unicode lower-case mapping below U+0100: A..Z and U+00C0..U+00DE
      (without the multiplication sign U+00D7) move up by 32.\<close>
  "toLowerChar c =
     (let n = (of_char c :: nat)
      in if (65 \<le> n \<and> n \<le> 90) \<or> (192 \<le> n \<and> n \<le> 222 \<and> n \<noteq> 215)
         then char_of (n + 32) else c)"

definition toLowerCase :: "string \<Rightarrow> string" where
  \<comment> \<open>\<^verbatim>\<open>String.prototype.toLowerCase\<close>\<close>
  "toLowerCase s = map toLowerChar s"

fun includes_str :: "string \<Rightarrow> string \<Rightarrow> bool" where
  \<comment> \<open>\<^verbatim>\<open>s.includes(t)\<close>: \<open>t\<close> occurs in \<open>s\<close> at some position.\<close>
  "includes_str [] t = (t = [])"
| "includes_str (c # s) t = (prefix t (c # s) \<or> includes_str s t)"

text \<open>
  Values of type \<^verbatim>\<open>boolean | undefined\<close>, as produced by an optional chain
  \<^verbatim>\<open>x?.toLowerCase().includes(q)\<close>: \<open>None\<close> is \<^verbatim>\<open>undefined\<close>.
\<close>

type_synonym jsbool = "bool option"

definition truthy :: "jsbool \<Rightarrow> bool" where
  "truthy v = (case v of None \<Rightarrow> False | Some b \<Rightarrow> b)"

definition js_or :: "jsbool \<Rightarrow> jsbool \<Rightarrow> jsbool" where
  \<comment> \<open>\<^verbatim>\<open>a || b\<close>: the left operand when it is truthy, the right one otherwise.\<close>
  "js_or a b = (if truthy a then a else b)"

definition opt_lower_includes :: "string option \<Rightarrow> string \<Rightarrow> jsbool" where
  \<comment> \<open>\<^verbatim>\<open>field?.toLowerCase().includes(needle)\<close>: an absent field short-circuits
      the whole chain to \<^verbatim>\<open>undefined\<close>; nothing is thrown.\<close>
  "opt_lower_includes field needle =
     (case field of
        None \<Rightarrow> None
      | Some s \<Rightarrow> Some (includes_str (toLowerCase s) needle))"

section \<open>Data model\<close>

text \<open>
  Modelled from the spec: the \<^verbatim>\<open>Place\<close> row type is generated by the database client
  (\<^verbatim>\<open>@prisma/client\<close>) and its declaration is not part of the sources; the fields are
  those of the spec's data model. The relations that \<^verbatim>\<open>PlaceWithRelations\<close> adds
  (\<^verbatim>\<open>category\<close>, \<^verbatim>\<open>images\<close>, \<^verbatim>\<open>chatHistories\<close>) are read by no action of the
  store and are left out. The field \<^verbatim>\<open>id\<close> is named \<open>id_field\<close> because
  \<^term>\<open>id\<close> is the identity function of HOL.
\<close>

record Place =
  id_field :: string
  name :: string
  address :: string
  description :: "string option"
  cuisine :: "string option"
  categoryId :: string
  isActive :: bool
  latitude :: real
  longitude :: real

text \<open>
  \<^verbatim>\<open>Partial<PlaceWithRelations>\<close>: every key may be missing (\<open>None\<close>) or carry a new
  value of the field's own type (for the two nullable columns that value may be
  \<^verbatim>\<open>null\<close>, hence the nested option). This is the well-typed view, in which a place
  stays a place; a key that is present with the value \<^verbatim>\<open>undefined\<close> is the subject
  of the run-time model further down.
\<close>

record PlaceUpdates =
  u_id :: "string option"
  u_name :: "string option"
  u_address :: "string option"
  u_description :: "string option option"
  u_cuisine :: "string option option"
  u_categoryId :: "string option"
  u_isActive :: "bool option"
  u_latitude :: "real option"
  u_longitude :: "real option"

definition spread :: "Place \<Rightarrow> PlaceUpdates \<Rightarrow> Place" where
  \<comment> \<open>\<^verbatim>\<open>{ ...place, ...updates }\<close>: a key of \<open>updates\<close> overrides the one of \<open>place\<close>.\<close>
  "spread place updates =
     \<lparr> id_field = (case u_id updates of None \<Rightarrow> id_field place | Some v \<Rightarrow> v),
       name = (case u_name updates of None \<Rightarrow> name place | Some v \<Rightarrow> v),
       address = (case u_address updates of None \<Rightarrow> address place | Some v \<Rightarrow> v),
       description =
         (case u_description updates of None \<Rightarrow> description place | Some v \<Rightarrow> v),
       cuisine = (case u_cuisine updates of None \<Rightarrow> cuisine place | Some v \<Rightarrow> v),
       categoryId =
         (case u_categoryId updates of None \<Rightarrow> categoryId place | Some v \<Rightarrow> v),
       isActive = (case u_isActive updates of None \<Rightarrow> isActive place | Some v \<Rightarrow> v),
       latitude = (case u_latitude updates of None \<Rightarrow> latitude place | Some v \<Rightarrow> v),
       longitude =
         (case u_longitude updates of None \<Rightarrow> longitude place | Some v \<Rightarrow> v) \<rparr>"

text \<open>
  The state of \<^verbatim>\<open>usePlaceStore\<close> (interface \<^verbatim>\<open>PlaceState\<close>). The \<^verbatim>\<open>Category\<close>
  row type is generated as well and no action looks inside it, so it is a type parameter.
\<close>

record 'cat PlaceState =
  places :: "Place list"
  categories :: "'cat list"
  selectedPlace :: "Place option"
  filteredPlaces :: "Place list"
  searchQuery :: string
  selectedCategoryId :: "string option"

definition initialState :: "'cat PlaceState" where
  "initialState =
     \<lparr> places = [], categories = [], selectedPlace = None, filteredPlaces = [],
       searchQuery = [], selectedCategoryId = None \<rparr>"

section \<open>The filter\<close>

definition text_match :: "string \<Rightarrow> Place \<Rightarrow> jsbool" where
  \<comment> \<open>the callback of the first \<^verbatim>\<open>filter\<close> call: a chain of four \<^verbatim>\<open>||\<close> operands\<close>
  "text_match query place =
     js_or
       (js_or
          (js_or
             (Some (includes_str (toLowerCase (name place)) (toLowerCase query)))
             (Some (includes_str (toLowerCase (address place)) (toLowerCase query))))
          (opt_lower_includes (description place) (toLowerCase query)))
       (opt_lower_includes (cuisine place) (toLowerCase query))"

definition text_stage :: "string \<Rightarrow> Place list \<Rightarrow> Place list" where
  \<comment> \<open>\<^verbatim>\<open>if (searchQuery.trim()) { filtered = filtered.filter(...) }\<close>;
      a string is truthy when it is not empty\<close>
  "text_stage query filtered =
     (if trim query \<noteq> []
      then filter (\<lambda>place. truthy (text_match query place)) filtered
      else filtered)"

definition category_stage :: "string option \<Rightarrow> Place list \<Rightarrow> Place list" where
  \<comment> \<open>\<^verbatim>\<open>if (selectedCategoryId) { ... }\<close>: \<^verbatim>\<open>null\<close> and the empty string are falsy\<close>
  "category_stage catId filtered =
     (case catId of
        None \<Rightarrow> filtered
      | Some c \<Rightarrow>
          if c \<noteq> [] then filter (\<lambda>place. categoryId place = c) filtered else filtered)"

definition active_stage :: "Place list \<Rightarrow> Place list" where
  "active_stage filtered = filter (\<lambda>place. isActive place) filtered"

definition filtered_places :: "Place list \<Rightarrow> string \<Rightarrow> string option \<Rightarrow> Place list" where
  \<comment> \<open>the value of the local variable \<^verbatim>\<open>filtered\<close> at the end of \<^verbatim>\<open>filterPlaces\<close>\<close>
  "filtered_places ps query catId =
     (let filtered = ps;
          filtered = text_stage query filtered;
          filtered = category_stage catId filtered;
          filtered = active_stage filtered
      in filtered)"

definition filterPlaces :: "'cat PlaceState \<Rightarrow> 'cat PlaceState" where
  "filterPlaces s =
     s\<lparr> filteredPlaces :=
          filtered_places (places s) (searchQuery s) (selectedCategoryId s) \<rparr>"

section \<open>The actions of the place store\<close>

definition setPlaces :: "Place list \<Rightarrow> 'cat PlaceState \<Rightarrow> 'cat PlaceState" where
  "setPlaces ps s = filterPlaces (s\<lparr> places := ps \<rparr>)"

definition setCategories :: "'cat list \<Rightarrow> 'cat PlaceState \<Rightarrow> 'cat PlaceState" where
  "setCategories cs s = s\<lparr> categories := cs \<rparr>"

definition setSelectedPlace :: "Place option \<Rightarrow> 'cat PlaceState \<Rightarrow> 'cat PlaceState" where
  "setSelectedPlace p s = s\<lparr> selectedPlace := p \<rparr>"

definition setSearchQuery :: "string \<Rightarrow> 'cat PlaceState \<Rightarrow> 'cat PlaceState" where
  "setSearchQuery q s = filterPlaces (s\<lparr> searchQuery := q \<rparr>)"

definition setSelectedCategory :: "string option \<Rightarrow> 'cat PlaceState \<Rightarrow> 'cat PlaceState" where
  "setSelectedCategory c s = filterPlaces (s\<lparr> selectedCategoryId := c \<rparr>)"

definition addPlace :: "Place \<Rightarrow> 'cat PlaceState \<Rightarrow> 'cat PlaceState" where
  "addPlace place s = filterPlaces (s\<lparr> places := places s @ [place] \<rparr>)"

definition updatePlace :: "string \<Rightarrow> PlaceUpdates \<Rightarrow> 'cat PlaceState \<Rightarrow> 'cat PlaceState" where
  "updatePlace i updates s =
     (let updatedPlaces =
            map (\<lambda>place. if id_field place = i then spread place updates else place)
              (places s)
      in filterPlaces (s\<lparr> places := updatedPlaces \<rparr>))"

definition removePlace :: "string \<Rightarrow> 'cat PlaceState \<Rightarrow> 'cat PlaceState" where
  "removePlace i s =
     (let remaining = filter (\<lambda>place. id_field place \<noteq> i) (places s)
      in filterPlaces (s\<lparr> places := remaining \<rparr>))"

section \<open>Arrays and objects by reference\<close>

text \<open>
  In the running program a state field holds a reference to an array, an array holds
  references to place objects, and \<^verbatim>\<open>Array.prototype.filter\<close> allocates the array it
  returns. The store below makes this explicit: an address is an index, allocation appends.
  A reference held by the program always points to an allocated cell; the facts below
  that read an array through its reference state that the reference is in range.
\<close>

record store =
  objs :: "Place list"
  arrs :: "nat list list"

definition array_filter :: "(Place \<Rightarrow> bool) \<Rightarrow> nat \<Rightarrow> store \<Rightarrow> nat \<times> store" where
  \<comment> \<open>\<^verbatim>\<open>a.filter(keep)\<close>: the address of the new array and the store holding it\<close>
  "array_filter keep a h =
     (length (arrs h),
      h\<lparr> arrs := arrs h @ [filter (\<lambda>r. keep (objs h ! r)) (arrs h ! a)] \<rparr>)"

record PlaceRefs =
  placesR :: nat
  categoriesR :: nat
  selectedPlaceR :: "nat option"
  filteredPlacesR :: nat
  searchQueryR :: string
  selectedCategoryIdR :: "string option"

definition filterPlacesR :: "PlaceRefs \<Rightarrow> store \<Rightarrow> PlaceRefs \<times> store" where
  \<comment> \<open>\<^verbatim>\<open>filterPlaces\<close> once more, with the identity of every array it touches\<close>
  "filterPlacesR s h =
     (let filtered = placesR s;
          (filtered, h) =
            (if trim (searchQueryR s) \<noteq> []
             then array_filter (\<lambda>place. truthy (text_match (searchQueryR s) place)) filtered h
             else (filtered, h));
          (filtered, h) =
            (case selectedCategoryIdR s of
               None \<Rightarrow> (filtered, h)
             | Some c \<Rightarrow>
                 if c \<noteq> [] then array_filter (\<lambda>place. categoryId place = c) filtered h
                 else (filtered, h));
          (filtered, h) = array_filter (\<lambda>place. isActive place) filtered h
      in (s\<lparr> filteredPlacesR := filtered \<rparr>, h))"

definition deref :: "store \<Rightarrow> nat \<Rightarrow> Place list" where
  \<comment> \<open>the places an array holds, in order\<close>
  "deref h a = map (\<lambda>r. objs h ! r) (arrs h ! a)"

definition extends :: "store \<Rightarrow> store \<Rightarrow> bool" where
  \<comment> \<open>\<open>h'\<close> has every object and every array of \<open>h\<close> as it was, and possibly new arrays\<close>
  "extends h h' \<longleftrightarrow> objs h' = objs h \<and> prefix (arrs h) (arrs h')"

section \<open>Place objects at run time\<close>

text \<open>
  The types of the store promise that the mandatory columns of a place hold a value, but
  the object spread of \<^verbatim>\<open>updatePlace\<close> copies whatever its argument holds, and
  \<^verbatim>\<open>Partial<PlaceWithRelations>\<close> admits a key that is present with the value
  \<^verbatim>\<open>undefined\<close>. This section models the store once more on place objects as they
  exist at run time, where any key may hold \<^verbatim>\<open>undefined\<close> (\<open>None\<close>) and a member
  access on \<^verbatim>\<open>undefined\<close> throws. An action returns the state it leaves behind
  together with the exception it ended with, if any.
\<close>

datatype js_error = TypeError

record RawPlace =
  id_rt :: "string option"
  name_rt :: "string option"
  address_rt :: "string option"
  description_rt :: "string option"
  cuisine_rt :: "string option"
  categoryId_rt :: "string option"
  isActive_rt :: "bool option"
  latitude_rt :: "real option"
  longitude_rt :: "real option"

text \<open>
  The argument of \<^verbatim>\<open>updatePlace\<close> at run time: a key is missing (\<open>None\<close>) or
  present with a value, which may be \<^verbatim>\<open>undefined\<close> (\<open>Some None\<close>).
\<close>

record RawUpdates =
  v_id :: "string option option"
  v_name :: "string option option"
  v_address :: "string option option"
  v_description :: "string option option"
  v_cuisine :: "string option option"
  v_categoryId :: "string option option"
  v_isActive :: "bool option option"
  v_latitude :: "real option option"
  v_longitude :: "real option option"

definition spread_rt :: "RawPlace \<Rightarrow> RawUpdates \<Rightarrow> RawPlace" where
  \<comment> \<open>\<^verbatim>\<open>{ ...place, ...updates }\<close>: a present key overrides, also with \<^verbatim>\<open>undefined\<close>\<close>
  "spread_rt place updates =
     \<lparr> id_rt = (case v_id updates of None \<Rightarrow> id_rt place | Some v \<Rightarrow> v),
       name_rt = (case v_name updates of None \<Rightarrow> name_rt place | Some v \<Rightarrow> v),
       address_rt = (case v_address updates of None \<Rightarrow> address_rt place | Some v \<Rightarrow> v),
       description_rt =
         (case v_description updates of None \<Rightarrow> description_rt place | Some v \<Rightarrow> v),
       cuisine_rt = (case v_cuisine updates of None \<Rightarrow> cuisine_rt place | Some v \<Rightarrow> v),
       categoryId_rt =
         (case v_categoryId updates of None \<Rightarrow> categoryId_rt place | Some v \<Rightarrow> v),
       isActive_rt = (case v_isActive updates of None \<Rightarrow> isActive_rt place | Some v \<Rightarrow> v),
       latitude_rt = (case v_latitude updates of None \<Rightarrow> latitude_rt place | Some v \<Rightarrow> v),
       longitude_rt =
         (case v_longitude updates of None \<Rightarrow> longitude_rt place | Some v \<Rightarrow> v) \<rparr>"

definition lower_includes :: "string option \<Rightarrow> string \<Rightarrow> js_error + bool" where
  \<comment> \<open>\<^verbatim>\<open>field.toLowerCase().includes(needle)\<close>, without \<^verbatim>\<open>?.\<close>: the member
      access throws when the field is \<^verbatim>\<open>undefined\<close>\<close>
  "lower_includes field needle =
     (case field of
        None \<Rightarrow> Inl TypeError
      | Some s \<Rightarrow> Inr (includes_str (toLowerCase s) needle))"

definition text_match_rt :: "string \<Rightarrow> RawPlace \<Rightarrow> js_error + jsbool" where
  \<comment> \<open>the callback of the text stage; \<^verbatim>\<open>||\<close> evaluates its right operand only when
      the left one is falsy, so the address is read only if the name did not match\<close>
  "text_match_rt query place =
     (case lower_includes (name_rt place) (toLowerCase query) of
        Inl e \<Rightarrow> Inl e
      | Inr a \<Rightarrow>
          if a then Inr (Some True)
          else
            (case lower_includes (address_rt place) (toLowerCase query) of
               Inl e \<Rightarrow> Inl e
             | Inr b \<Rightarrow>
                 Inr (js_or
                        (js_or (Some b)
                           (opt_lower_includes (description_rt place) (toLowerCase query)))
                        (opt_lower_includes (cuisine_rt place) (toLowerCase query)))))"

fun filter_rt :: "('a \<Rightarrow> js_error + jsbool) \<Rightarrow> 'a list \<Rightarrow> js_error + 'a list" where
  \<comment> \<open>\<^verbatim>\<open>Array.prototype.filter\<close> with a callback that may throw: the elements are
      visited in order and the first exception ends the call\<close>
  "filter_rt f [] = Inr []"
| "filter_rt f (x # xs) =
     (case f x of
        Inl e \<Rightarrow> Inl e
      | Inr b \<Rightarrow>
          (case filter_rt f xs of
             Inl e \<Rightarrow> Inl e
           | Inr ys \<Rightarrow> Inr (if truthy b then x # ys else ys)))"

definition filtered_places_rt ::
  "RawPlace list \<Rightarrow> string \<Rightarrow> string option \<Rightarrow> js_error + RawPlace list" where
  \<comment> \<open>lines 146 to 174: only the text stage can throw; \<^verbatim>\<open>===\<close> and the truthiness
      of \<^verbatim>\<open>isActive\<close> are defined on \<^verbatim>\<open>undefined\<close>\<close>
  "filtered_places_rt ps query catId =
     (case (if trim query \<noteq> [] then filter_rt (text_match_rt query) ps else Inr ps) of
        Inl e \<Rightarrow> Inl e
      | Inr filtered \<Rightarrow>
          (let filtered =
                 (case catId of
                    None \<Rightarrow> filtered
                  | Some c \<Rightarrow>
                      if c \<noteq> []
                      then filter (\<lambda>place. categoryId_rt place = Some c) filtered
                      else filtered);
               filtered = filter (\<lambda>place. isActive_rt place = Some True) filtered
           in Inr filtered))"

record 'cat RawState =
  places_rt :: "RawPlace list"
  categories_rt :: "'cat list"
  selectedPlace_rt :: "RawPlace option"
  filteredPlaces_rt :: "RawPlace list"
  searchQuery_rt :: string
  selectedCategoryId_rt :: "string option"

definition initialState_rt :: "'cat RawState" where
  "initialState_rt =
     \<lparr> places_rt = [], categories_rt = [], selectedPlace_rt = None, filteredPlaces_rt = [],
       searchQuery_rt = [], selectedCategoryId_rt = None \<rparr>"

definition filterPlaces_rt :: "'cat RawState \<Rightarrow> 'cat RawState \<times> js_error option" where
  \<comment> \<open>when the filter throws, the \<^verbatim>\<open>set\<close> of line 176 is not reached\<close>
  "filterPlaces_rt s =
     (case filtered_places_rt (places_rt s) (searchQuery_rt s) (selectedCategoryId_rt s) of
        Inl e \<Rightarrow> (s, Some e)
      | Inr filtered \<Rightarrow> (s\<lparr> filteredPlaces_rt := filtered \<rparr>, None))"

definition setPlaces_rt :: "RawPlace list \<Rightarrow> 'cat RawState \<Rightarrow> 'cat RawState \<times> js_error option" where
  "setPlaces_rt ps s = filterPlaces_rt (s\<lparr> places_rt := ps \<rparr>)"

definition setCategories_rt :: "'cat list \<Rightarrow> 'cat RawState \<Rightarrow> 'cat RawState \<times> js_error option" where
  "setCategories_rt cs s = (s\<lparr> categories_rt := cs \<rparr>, None)"

definition setSelectedPlace_rt ::
  "RawPlace option \<Rightarrow> 'cat RawState \<Rightarrow> 'cat RawState \<times> js_error option" where
  "setSelectedPlace_rt p s = (s\<lparr> selectedPlace_rt := p \<rparr>, None)"

definition setSearchQuery_rt :: "string \<Rightarrow> 'cat RawState \<Rightarrow> 'cat RawState \<times> js_error option" where
  "setSearchQuery_rt q s = filterPlaces_rt (s\<lparr> searchQuery_rt := q \<rparr>)"

definition setSelectedCategory_rt ::
  "string option \<Rightarrow> 'cat RawState \<Rightarrow> 'cat RawState \<times> js_error option" where
  "setSelectedCategory_rt c s = filterPlaces_rt (s\<lparr> selectedCategoryId_rt := c \<rparr>)"

definition addPlace_rt :: "RawPlace \<Rightarrow> 'cat RawState \<Rightarrow> 'cat RawState \<times> js_error option" where
  "addPlace_rt place s = filterPlaces_rt (s\<lparr> places_rt := places_rt s @ [place] \<rparr>)"

definition updatePlace_rt ::
  "string \<Rightarrow> RawUpdates \<Rightarrow> 'cat RawState \<Rightarrow> 'cat RawState \<times> js_error option" where
  \<comment> \<open>\<^verbatim>\<open>set({ places: updatedPlaces })\<close> has happened when \<^verbatim>\<open>filterPlaces\<close> runs\<close>
  "updatePlace_rt i updates s =
     (let updatedPlaces =
            map (\<lambda>place. if id_rt place = Some i then spread_rt place updates else place)
              (places_rt s)
      in filterPlaces_rt (s\<lparr> places_rt := updatedPlaces \<rparr>))"

definition removePlace_rt :: "string \<Rightarrow> 'cat RawState \<Rightarrow> 'cat RawState \<times> js_error option" where
  "removePlace_rt i s =
     (let remaining = filter (\<lambda>place. id_rt place \<noteq> Some i) (places_rt s)
      in filterPlaces_rt (s\<lparr> places_rt := remaining \<rparr>))"

text \<open>A well-typed place, update or state as a run-time one.\<close>

definition raw_of :: "Place \<Rightarrow> RawPlace" where
  "raw_of p =
     \<lparr> id_rt = Some (id_field p), name_rt = Some (name p), address_rt = Some (address p),
       description_rt = description p, cuisine_rt = cuisine p,
       categoryId_rt = Some (categoryId p), isActive_rt = Some (isActive p),
       latitude_rt = Some (latitude p), longitude_rt = Some (longitude p) \<rparr>"

definition updates_of :: "PlaceUpdates \<Rightarrow> RawUpdates" where
  "updates_of u =
     \<lparr> v_id = map_option Some (u_id u), v_name = map_option Some (u_name u),
       v_address = map_option Some (u_address u), v_description = u_description u,
       v_cuisine = u_cuisine u, v_categoryId = map_option Some (u_categoryId u),
       v_isActive = map_option Some (u_isActive u),
       v_latitude = map_option Some (u_latitude u),
       v_longitude = map_option Some (u_longitude u) \<rparr>"

definition state_of :: "'cat PlaceState \<Rightarrow> 'cat RawState" where
  "state_of s =
     \<lparr> places_rt = map raw_of (places s), categories_rt = categories s,
       selectedPlace_rt = map_option raw_of (selectedPlace s),
       filteredPlaces_rt = map raw_of (filteredPlaces s),
       searchQuery_rt = searchQuery s, selectedCategoryId_rt = selectedCategoryId s \<rparr>"

section \<open>Notions of the specification\<close>

definition contains_ci :: "string \<Rightarrow> string \<Rightarrow> bool" where
  \<comment> \<open>the lower-cased field has the lower-cased query, as given, as a contiguous part\<close>
  "contains_ci field q = sublist (toLowerCase q) (toLowerCase field)"

definition spec_text_keep :: "string \<Rightarrow> Place \<Rightarrow> bool" where
  \<comment> \<open>the text criterion in the specification's words: any of the four fields contains
      the query, an absent field counting as no match\<close>
  "spec_text_keep q p =
     (contains_ci (name p) q \<or> contains_ci (address p) q
      \<or> (case description p of None \<Rightarrow> False | Some d \<Rightarrow> contains_ci d q)
      \<or> (case cuisine p of None \<Rightarrow> False | Some c \<Rightarrow> contains_ci c q))"





definition consistent_rt :: "'cat RawState \<Rightarrow> bool" where
  \<comment> \<open>the cached view is the result of the filter on the current inputs\<close>
  "consistent_rt s \<longleftrightarrow>
     filtered_places_rt (places_rt s) (searchQuery_rt s) (selectedCategoryId_rt s)
       = Inr (filteredPlaces_rt s)"

definition named :: "RawPlace \<Rightarrow> bool" where
  \<comment> \<open>the two fields the text stage reads without \<^verbatim>\<open>?.\<close> hold a string\<close>
  "named place \<longleftrightarrow> name_rt place \<noteq> None \<and> address_rt place \<noteq> None"

text \<open>The states the store reaches from its initial state by actions that complete.\<close>

inductive reachable_rt :: "'cat RawState \<Rightarrow> bool" where
  rt_init: "reachable_rt initialState_rt"
| rt_setPlaces:
    "reachable_rt s \<Longrightarrow> setPlaces_rt ps s = (s', None) \<Longrightarrow> reachable_rt s'"
| rt_setCategories:
    "reachable_rt s \<Longrightarrow> setCategories_rt cs s = (s', None) \<Longrightarrow> reachable_rt s'"
| rt_setSelectedPlace:
    "reachable_rt s \<Longrightarrow> setSelectedPlace_rt sel s = (s', None) \<Longrightarrow> reachable_rt s'"
| rt_setSearchQuery:
    "reachable_rt s \<Longrightarrow> setSearchQuery_rt q s = (s', None) \<Longrightarrow> reachable_rt s'"
| rt_setSelectedCategory:
    "reachable_rt s \<Longrightarrow> setSelectedCategory_rt c s = (s', None) \<Longrightarrow> reachable_rt s'"
| rt_addPlace:
    "reachable_rt s \<Longrightarrow> addPlace_rt p s = (s', None) \<Longrightarrow> reachable_rt s'"
| rt_updatePlace:
    "reachable_rt s \<Longrightarrow> updatePlace_rt i u s = (s', None) \<Longrightarrow> reachable_rt s'"
| rt_removePlace:
    "reachable_rt s \<Longrightarrow> removePlace_rt i s = (s', None) \<Longrightarrow> reachable_rt s'"
| rt_filterPlaces:
    "reachable_rt s \<Longrightarrow> filterPlaces_rt s = (s', None) \<Longrightarrow> reachable_rt s'"

section \<open>Example data\<close>

text \<open>The three places of the specification's worked example.\<close>

definition hahoe :: Place where
  "hahoe = \<lparr> id_field = ''p1'', name = ''Hahoe House'', address = ''Andong-si'',
     description = None, cuisine = None, categoryId = ''heritage'', isActive = True,
     latitude = 0, longitude = 0 \<rparr>"

definition jjimdak :: Place where
  "jjimdak = \<lparr> id_field = ''p2'', name = ''Jjimdak Alley'', address = ''Andong-si'',
     description = None, cuisine = Some ''korean'', categoryId = ''food'', isActive = True,
     latitude = 0, longitude = 0 \<rparr>"

definition closed_spot :: Place where
  "closed_spot = \<lparr> id_field = ''p3'', name = ''Closed Spot'', address = ''X'',
     description = None, cuisine = None, categoryId = ''food'', isActive = False,
     latitude = 0, longitude = 0 \<rparr>"

definition examplePlaces :: "Place list" where
  "examplePlaces = [hahoe, jjimdak, closed_spot]"

definition cat1Places :: "Place list" where
  "cat1Places =
     [hahoe \<lparr> categoryId := ''cat-1'' \<rparr>, jjimdak, closed_spot \<lparr> categoryId := ''cat-1'' \<rparr>]"

definition exampleRun :: "unit PlaceState" where
  "exampleRun =
     setSearchQuery ''andong''
       (addPlace closed_spot (addPlace jjimdak (addPlace hahoe initialState)))"

definition noUpdates :: PlaceUpdates where
  "noUpdates = \<lparr> u_id = None, u_name = None, u_address = None, u_description = None,
     u_cuisine = None, u_categoryId = None, u_isActive = None, u_latitude = None,
     u_longitude = None \<rparr>"

definition closeUpdate :: PlaceUpdates where
  "closeUpdate = noUpdates \<lparr> u_isActive := Some False, u_cuisine := Some None \<rparr>"

definition exampleStore :: store where
  "exampleStore = \<lparr> objs = [hahoe, jjimdak, closed_spot], arrs = [[0, 1, 2], []] \<rparr>"

definition exampleRefs :: PlaceRefs where
  "exampleRefs = \<lparr> placesR = 0, categoriesR = 1, selectedPlaceR = None,
     filteredPlacesR = 1, searchQueryR = ''andong'', selectedCategoryIdR = None \<rparr>"





definition exampleRun_rt :: "unit RawState" where
  "exampleRun_rt = state_of exampleRun"

definition nameUndefined :: RawUpdates where
  "nameUndefined = \<lparr> v_id = None, v_name = Some None, v_address = None,
     v_description = None, v_cuisine = None, v_categoryId = None, v_isActive = None,
     v_latitude = None, v_longitude = None \<rparr>"

definition closeUpdate_rt :: RawUpdates where
  "closeUpdate_rt = updates_of closeUpdate"

section \<open>Facts about the string primitives\<close>

lemma includes_str_sublist: "includes_str s t \<longleftrightarrow> sublist t s"
  by (induction s) (simp_all add: sublist_Cons_right)












section \<open>Facts about the filter\<close>

lemma truthy_text_match: "truthy (text_match q p) = spec_text_keep q p"
  by (auto simp: text_match_def spec_text_keep_def contains_ci_def js_or_def truthy_def
      opt_lower_includes_def includes_str_sublist split: option.splits)

lemma filtered_places_unfold:
  "filtered_places P q c = active_stage (category_stage c (text_stage q P))"
  by (simp add: filtered_places_def)

lemma set_active_stage: "set (active_stage xs) = {p \<in> set xs. isActive p}"
  by (simp add: active_stage_def)

text \<open>
  The category test is one of truthiness: a selector that is the empty string skips the
  stage just as \<^verbatim>\<open>null\<close> does; any other selector keeps the places of that category.
\<close>

lemma category_stage_selector:
  "category_stage (Some []) xs = xs"
  "c \<noteq> [] \<Longrightarrow> category_stage (Some c) xs = filter (\<lambda>place. categoryId place = c) xs"
  by (simp_all add: category_stage_def)


text \<open>The worked example of the specification.\<close>

lemma example_query_andong: "filtered_places examplePlaces ''andong'' None = [hahoe, jjimdak]"
  by code_simp

lemma example_category_food: "filtered_places examplePlaces [] (Some ''food'') = [jjimdak]"
  by code_simp

text \<open>The needle is the query as typed: surrounding blanks are part of it.\<close>

lemma example_untrimmed_needle:
  "text_stage ''korean'' examplePlaces = [jjimdak] \<and> text_stage '' korean '' examplePlaces = []"
  by code_simp

section \<open>The text stage\<close>

text \<open>
  Claim C1. When the trimmed query is not empty, the text stage keeps exactly the places
  of which the name, the address, the description (if there is one) or the cuisine (if
  there is one) contains, after lower-casing both sides, the lower-cased query as it was
  typed (not trimmed). When the trimmed query is empty the stage keeps every place.
\<close>

theorem text_stage_keeps_matching:
  "(trim q \<noteq> [] \<longrightarrow> text_stage q P = filter (spec_text_keep q) P)
   \<and> (trim q = [] \<longrightarrow> text_stage q P = P)"
  by (simp add: text_stage_def truthy_text_match)

theorem text_stage_keeps_matching_witness:
  "trim '' KOREAN'' \<noteq> [] \<and> text_stage ''KOREAN'' examplePlaces = [jjimdak]
   \<and> text_stage '' KOREAN'' examplePlaces = []
   \<and> trim ''   '' = [] \<and> text_stage ''   '' examplePlaces = examplePlaces"
proof -
  have ev: "trim ''KOREAN'' \<noteq> [] \<and> trim '' KOREAN'' \<noteq> [] \<and> trim ''   '' = []
    \<and> filter (spec_text_keep ''KOREAN'') examplePlaces = [jjimdak]
    \<and> filter (spec_text_keep '' KOREAN'') examplePlaces = []"
    by code_simp
  show ?thesis
    using text_stage_keeps_matching [of "''KOREAN''" examplePlaces]
      text_stage_keeps_matching [of "'' KOREAN''" examplePlaces]
      text_stage_keeps_matching [of "''   ''" examplePlaces] ev
    by simp
qed

section \<open>The active flag\<close>

text \<open>
  Claim C2. Whatever the place list, the query and the category selection, every place
  in the result of the filter is active; the same holds for the cached view that
  \<^verbatim>\<open>filterPlaces\<close> stores.
\<close>

theorem inactive_never_returned:
  "(\<forall>p \<in> set (filtered_places P q c). isActive p)
   \<and> (\<forall>p \<in> set (filteredPlaces (filterPlaces s)). isActive p)"
  by (simp add: filterPlaces_def filtered_places_unfold set_active_stage)

theorem inactive_never_returned_witness:
  "filtered_places examplePlaces ''o'' (Some ''food'') = [jjimdak]
   \<and> isActive jjimdak
   \<and> categoryId closed_spot = ''food'' \<and> \<not> isActive closed_spot
   \<and> closed_spot \<in> set examplePlaces"
proof -
  have ev: "filtered_places examplePlaces ''o'' (Some ''food'') = [jjimdak]
     \<and> categoryId closed_spot = ''food'' \<and> \<not> isActive closed_spot
     \<and> closed_spot \<in> set examplePlaces"
    by code_simp
  show ?thesis
    using inactive_never_returned
      [of examplePlaces "''o''" "Some ''food''" "initialState :: unit PlaceState"] ev
    by simp
qed

section \<open>The category stage\<close>

text \<open>
  Claim C3. With the empty query and the category \<open>cat-1\<close> the filter returns exactly the
  places that are active and whose \<open>categoryId\<close> equals \<open>cat-1\<close>. With no category
  selected the category stage returns its input, so the filter is the active stage after
  the text stage.
\<close>

theorem category_exact_match:
  "filtered_places P [] (Some ''cat-1'')
     = filter (\<lambda>p. isActive p \<and> categoryId p = ''cat-1'') P
   \<and> category_stage None xs = xs
   \<and> filtered_places P q None = active_stage (text_stage q P)"
  by (auto simp: filtered_places_unfold category_stage_def active_stage_def text_stage_def
      trim_def intro: filter_cong)

theorem category_exact_match_witness:
  "filtered_places cat1Places [] (Some ''cat-1'') = [hahoe \<lparr> categoryId := ''cat-1'' \<rparr>]
   \<and> filtered_places cat1Places [] None = [hahoe \<lparr> categoryId := ''cat-1'' \<rparr>, jjimdak]"
proof -
  have ev: "filter (\<lambda>p. isActive p \<and> categoryId p = ''cat-1'') cat1Places
              = [hahoe \<lparr> categoryId := ''cat-1'' \<rparr>]
     \<and> active_stage (text_stage [] cat1Places) = [hahoe \<lparr> categoryId := ''cat-1'' \<rparr>, jjimdak]"
    by code_simp
  show ?thesis
    using category_exact_match [of cat1Places "[]" "[]"] ev by simp
qed

section \<open>Order\<close>

text \<open>
  Claim C4. The result of the filter is a subsequence of the place list it was given:
  it is obtained by deleting elements, so each of its elements occurs in the input and
  any two of them stand in the order they have there.
\<close>

theorem filtered_places_subseq:
  "subseq (filtered_places P q c) P \<and> set (filtered_places P q c) \<subseteq> set P"
proof -
  have t: "subseq (text_stage q P) P"
    by (simp add: text_stage_def)
  have c: "subseq (category_stage c (text_stage q P)) (text_stage q P)"
    by (simp add: category_stage_def split: option.split)
  have a: "subseq (active_stage (category_stage c (text_stage q P)))
             (category_stage c (text_stage q P))"
    by (simp add: active_stage_def)
  have s: "subseq (filtered_places P q c) P"
    unfolding filtered_places_unfold using a c t by (blast intro: subseq_order.trans)
  have "set (filtered_places P q c) \<subseteq> set P"
    by (auto simp: filtered_places_unfold active_stage_def category_stage_def text_stage_def
        split: option.splits if_splits)
  with s show ?thesis by simp
qed

theorem filtered_places_subseq_witness:
  "filtered_places examplePlaces ''andong'' None = [hahoe, jjimdak]
   \<and> subseq [hahoe, jjimdak] [hahoe, jjimdak, closed_spot]"
  using filtered_places_subseq [of examplePlaces "''andong''" None] example_query_andong
  by (simp add: examplePlaces_def)

section \<open>Blank queries\<close>

text \<open>
  Claim C5. For every place list and every category selection, the empty query and the
  query of three spaces give the same result.
\<close>

theorem blank_query_as_empty: "filtered_places P [] c = filtered_places P ''   '' c"
  by (simp add: filtered_places_unfold text_stage_def trim_def isWhiteSpace_def)

theorem blank_query_as_empty_witness:
  "filtered_places examplePlaces ''   '' (Some ''food'') = [jjimdak]"
  using blank_query_as_empty [of examplePlaces "Some ''food''"] example_category_food
  by simp

section \<open>Letter case of the query\<close>




section \<open>Absent optional fields\<close>

text \<open>
  Claim C7. For a place without description and without cuisine the callback of the text
  stage evaluates to a value (\<^verbatim>\<open>true\<close> when the name or the address contains the
  query, \<^verbatim>\<open>undefined\<close> otherwise) and raises nothing; so such a place passes the text
  stage exactly when its name or its address contains the query.
\<close>

theorem absent_fields_match_by_name_or_address:
  "description p = None \<and> cuisine p = None \<longrightarrow>
     text_match q p
       = (if contains_ci (name p) q \<or> contains_ci (address p) q then Some True else None)
     \<and> (truthy (text_match q p) \<longleftrightarrow> contains_ci (name p) q \<or> contains_ci (address p) q)
     \<and> (trim q \<noteq> [] \<longrightarrow>
          (p \<in> set (text_stage q P)
            \<longleftrightarrow> p \<in> set P \<and> (contains_ci (name p) q \<or> contains_ci (address p) q)))"
  by (auto simp: text_match_def text_stage_def js_or_def truthy_def opt_lower_includes_def
      contains_ci_def includes_str_sublist)

theorem absent_fields_match_by_name_or_address_witness:
  "description hahoe = None \<and> cuisine hahoe = None
   \<and> text_match ''house'' hahoe = Some True
   \<and> text_match ''korean'' hahoe = None
   \<and> hahoe \<in> set (text_stage ''house'' examplePlaces)
   \<and> hahoe \<notin> set (text_stage ''korean'' examplePlaces)"
proof -
  have ev: "description hahoe = None \<and> cuisine hahoe = None
      \<and> contains_ci (name hahoe) ''house''
      \<and> \<not> contains_ci (name hahoe) ''korean'' \<and> \<not> contains_ci (address hahoe) ''korean''
      \<and> trim ''house'' \<noteq> [] \<and> trim ''korean'' \<noteq> [] \<and> hahoe \<in> set examplePlaces"
    by code_simp
  show ?thesis
    using absent_fields_match_by_name_or_address [of hahoe "''house''" examplePlaces]
      absent_fields_match_by_name_or_address [of hahoe "''korean''" examplePlaces] ev
    by simp
qed

section \<open>What filterPlaces changes\<close>

lemma filterPlacesR_frame:
  assumes "filterPlacesR s h = (s', h')"
  shows "s' = s\<lparr> filteredPlacesR := filteredPlacesR s' \<rparr>"
    and "extends h h'"
    and "length (arrs h) \<le> filteredPlacesR s'"
    and "filteredPlacesR s' < length (arrs h')"
  using assms
  by (auto simp: filterPlacesR_def Let_def array_filter_def extends_def
      split: option.splits if_splits)

lemma filterPlacesR_deref:
  assumes "filterPlacesR s h = (s', h')" and "placesR s < length (arrs h)"
  shows "deref h' (filteredPlacesR s')
           = filtered_places (deref h (placesR s)) (searchQueryR s) (selectedCategoryIdR s)"
  using assms
  by (auto simp: filterPlacesR_def Let_def array_filter_def deref_def filtered_places_unfold
      text_stage_def category_stage_def active_stage_def filter_map comp_def nth_append
      split: option.splits if_splits)

lemma extends_deref: "extends h h' \<Longrightarrow> a < length (arrs h) \<Longrightarrow> deref h' a = deref h a"
  by (auto simp: extends_def deref_def prefix_def nth_append)

text \<open>
  Claim C8. \<^verbatim>\<open>filterPlaces\<close> replaces the field \<open>filteredPlaces\<close> and nothing else:
  \<open>places\<close>, \<open>categories\<close>, \<open>selectedPlace\<close>, \<open>searchQuery\<close> and
  \<open>selectedCategoryId\<close> are as before. At the level of references, no object and no
  existing array is written; the array stored in \<open>filteredPlaces\<close> is newly allocated, so
  it is not the \<open>places\<close> array, which still holds the same places; and the new array
  holds the result of the filter on those places.
\<close>

theorem filterPlaces_frame:
  "places (filterPlaces s) = places s
   \<and> categories (filterPlaces s) = categories s
   \<and> selectedPlace (filterPlaces s) = selectedPlace s
   \<and> searchQuery (filterPlaces s) = searchQuery s
   \<and> selectedCategoryId (filterPlaces s) = selectedCategoryId s
   \<and> filterPlaces s = s\<lparr> filteredPlaces := filteredPlaces (filterPlaces s) \<rparr>
   \<and> (filterPlacesR r h = (r', h') \<longrightarrow>
        r' = r\<lparr> filteredPlacesR := filteredPlacesR r' \<rparr>
        \<and> objs h' = objs h
        \<and> take (length (arrs h)) (arrs h') = arrs h
        \<and> length (arrs h) \<le> filteredPlacesR r'
        \<and> filteredPlacesR r' < length (arrs h')
        \<and> (placesR r < length (arrs h) \<longrightarrow>
             filteredPlacesR r' \<noteq> placesR r
             \<and> deref h' (placesR r) = deref h (placesR r)
             \<and> deref h' (filteredPlacesR r')
                 = filtered_places (deref h (placesR r)) (searchQueryR r)
                     (selectedCategoryIdR r)))"
proof -
  have v: "places (filterPlaces s) = places s
   \<and> categories (filterPlaces s) = categories s
   \<and> selectedPlace (filterPlaces s) = selectedPlace s
   \<and> searchQuery (filterPlaces s) = searchQuery s
   \<and> selectedCategoryId (filterPlaces s) = selectedCategoryId s
   \<and> filterPlaces s = s\<lparr> filteredPlaces := filteredPlaces (filterPlaces s) \<rparr>"
    by (simp add: filterPlaces_def)
  have r: "r' = r\<lparr> filteredPlacesR := filteredPlacesR r' \<rparr>
        \<and> objs h' = objs h
        \<and> take (length (arrs h)) (arrs h') = arrs h
        \<and> length (arrs h) \<le> filteredPlacesR r'
        \<and> filteredPlacesR r' < length (arrs h')
        \<and> (placesR r < length (arrs h) \<longrightarrow>
             filteredPlacesR r' \<noteq> placesR r
             \<and> deref h' (placesR r) = deref h (placesR r)
             \<and> deref h' (filteredPlacesR r')
                 = filtered_places (deref h (placesR r)) (searchQueryR r)
                     (selectedCategoryIdR r))"
    if run: "filterPlacesR r h = (r', h')"
  proof -
    note f = filterPlacesR_frame [OF run]
    from f(2) have o: "objs h' = objs h" and t: "take (length (arrs h)) (arrs h') = arrs h"
      by (auto simp: extends_def prefix_def)
    have d: "filteredPlacesR r' \<noteq> placesR r
             \<and> deref h' (placesR r) = deref h (placesR r)
             \<and> deref h' (filteredPlacesR r')
                 = filtered_places (deref h (placesR r)) (searchQueryR r)
                     (selectedCategoryIdR r)"
      if wf: "placesR r < length (arrs h)"
      using f(3) wf extends_deref [OF f(2) wf] filterPlacesR_deref [OF run wf] by simp
    show ?thesis
      using f(1) f(3) f(4) o t d by blast
  qed
  show ?thesis
    using v r by blast
qed

theorem filterPlaces_frame_witness:
  "filterPlacesR exampleRefs exampleStore
     = (exampleRefs \<lparr> filteredPlacesR := 3 \<rparr>,
        exampleStore \<lparr> arrs := [[0, 1, 2], [], [0, 1], [0, 1]] \<rparr>)
   \<and> placesR exampleRefs < length (arrs exampleStore)
   \<and> deref (exampleStore \<lparr> arrs := [[0, 1, 2], [], [0, 1], [0, 1]] \<rparr>) 3
       = filtered_places (deref exampleStore 0) ''andong'' None
   \<and> deref (exampleStore \<lparr> arrs := [[0, 1, 2], [], [0, 1], [0, 1]] \<rparr>) 0
       = [hahoe, jjimdak, closed_spot]"
proof -
  define r3 where "r3 = exampleRefs \<lparr> filteredPlacesR := 3 \<rparr>"
  define h3 where "h3 = exampleStore \<lparr> arrs := [[0, 1, 2], [], [0, 1], [0, 1]] \<rparr>"
  have run: "filterPlacesR exampleRefs exampleStore = (r3, h3)"
    unfolding r3_def h3_def by code_simp
  have wf: "placesR exampleRefs < length (arrs exampleStore)"
    by (simp add: exampleRefs_def exampleStore_def)
  have vals: "placesR exampleRefs = 0" "searchQueryR exampleRefs = ''andong''"
    "selectedCategoryIdR exampleRefs = None" "filteredPlacesR r3 = 3"
    by (simp_all add: exampleRefs_def r3_def)
  have d0: "deref exampleStore 0 = [hahoe, jjimdak, closed_spot]"
    by (simp add: deref_def exampleStore_def)
  have "deref h3 (placesR exampleRefs) = deref exampleStore (placesR exampleRefs)
      \<and> deref h3 (filteredPlacesR r3)
          = filtered_places (deref exampleStore (placesR exampleRefs))
              (searchQueryR exampleRefs) (selectedCategoryIdR exampleRefs)"
    using filterPlaces_frame
      [of "initialState :: unit PlaceState" exampleRefs exampleStore r3 h3] run wf
    by blast
  then have "deref h3 0 = [hahoe, jjimdak, closed_spot]
      \<and> deref h3 3 = filtered_places (deref exampleStore 0) ''andong'' None"
    by (simp add: vals d0)
  then show ?thesis
    using run wf unfolding r3_def h3_def by simp
qed

section \<open>The cached view follows its inputs\<close>

lemma filter_rt_total:
  "\<forall>x \<in> set xs. \<exists>b. f x = Inr b \<Longrightarrow>
     filter_rt f xs = Inr (filter (\<lambda>x. truthy (projr (f x))) xs)"
  by (induction xs) auto

lemma text_match_rt_named: "named p \<Longrightarrow> \<exists>b. text_match_rt q p = Inr b"
  by (auto simp: named_def text_match_rt_def lower_includes_def)

lemma filtered_places_rt_named:
  "\<forall>p \<in> set ps. named p \<Longrightarrow> \<exists>f. filtered_places_rt ps q c = Inr f"
  by (simp add: filtered_places_rt_def filter_rt_total text_match_rt_named Let_def)

lemma text_match_rt_raw_of: "text_match_rt q (raw_of p) = Inr (text_match q p)"
  by (simp add: text_match_rt_def lower_includes_def raw_of_def text_match_def js_or_def
      truthy_def)

lemma filter_rt_raw_of:
  "filter_rt (text_match_rt q) (map raw_of P)
     = Inr (map raw_of (filter (\<lambda>place. truthy (text_match q place)) P))"
  by (induction P) (simp_all add: text_match_rt_raw_of)

lemma filtered_places_rt_raw_of:
  "filtered_places_rt (map raw_of P) q c = Inr (map raw_of (filtered_places P q c))"
  by (simp add: filtered_places_rt_def filter_rt_raw_of filtered_places_unfold text_stage_def
      category_stage_def active_stage_def filter_map comp_def raw_of_def Let_def
      split: option.split)

lemma filterPlaces_rt_consistent:
  "filterPlaces_rt s = (s', None) \<Longrightarrow> consistent_rt s'"
  by (auto simp: filterPlaces_rt_def consistent_rt_def split: sum.splits)

lemma filterPlaces_rt_completes:
  "\<forall>p \<in> set (places_rt s). named p \<Longrightarrow> snd (filterPlaces_rt s) = None"
  using filtered_places_rt_named [of "places_rt s" "searchQuery_rt s" "selectedCategoryId_rt s"]
  by (auto simp: filterPlaces_rt_def)

lemma named_spread_rt:
  "named p \<Longrightarrow> v_name u \<noteq> Some None \<Longrightarrow> v_address u \<noteq> Some None \<Longrightarrow> named (spread_rt p u)"
  by (auto simp: named_def spread_rt_def split: option.splits)

lemma consistent_rt_actions:
  "setPlaces_rt ps s = (s', None) \<Longrightarrow> consistent_rt s'"
  "setSearchQuery_rt q s = (s', None) \<Longrightarrow> consistent_rt s'"
  "setSelectedCategory_rt c s = (s', None) \<Longrightarrow> consistent_rt s'"
  "addPlace_rt p s = (s', None) \<Longrightarrow> consistent_rt s'"
  "updatePlace_rt i u s = (s', None) \<Longrightarrow> consistent_rt s'"
  "removePlace_rt i s = (s', None) \<Longrightarrow> consistent_rt s'"
  by (auto simp: setPlaces_rt_def setSearchQuery_rt_def setSelectedCategory_rt_def
      addPlace_rt_def updatePlace_rt_def removePlace_rt_def Let_def
      dest: filterPlaces_rt_consistent)

lemma completes_actions:
  "\<forall>p \<in> set ps. named p \<Longrightarrow> snd (setPlaces_rt ps s) = None"
  "\<forall>p \<in> set (places_rt s). named p \<Longrightarrow> snd (setSearchQuery_rt q s) = None"
  "\<forall>p \<in> set (places_rt s). named p \<Longrightarrow> snd (setSelectedCategory_rt c s) = None"
  "\<forall>p \<in> set (places_rt s). named p \<Longrightarrow> named p' \<Longrightarrow> snd (addPlace_rt p' s) = None"
  "\<forall>p \<in> set (places_rt s). named p \<Longrightarrow> snd (removePlace_rt i s) = None"
  by (simp_all add: setPlaces_rt_def setSearchQuery_rt_def setSelectedCategory_rt_def
      addPlace_rt_def removePlace_rt_def Let_def filterPlaces_rt_completes)

lemma completes_updatePlace:
  assumes "\<forall>p \<in> set (places_rt s). named p"
    and "v_name u \<noteq> Some None" and "v_address u \<noteq> Some None"
  shows "snd (updatePlace_rt i u s) = None"
proof -
  have "\<forall>p \<in> set (map (\<lambda>place. if id_rt place = Some i then spread_rt place u else place)
                     (places_rt s)). named p"
    using assms by (auto simp: named_spread_rt)
  then show ?thesis
    by (simp add: updatePlace_rt_def Let_def filterPlaces_rt_completes)
qed

lemma consistent_rt_initial: "consistent_rt initialState_rt"
  by (simp add: consistent_rt_def initialState_rt_def filtered_places_rt_def trim_def)

lemma reachable_rt_consistent: "reachable_rt s \<Longrightarrow> consistent_rt s"
proof (induction rule: reachable_rt.induct)
  case rt_init
  show ?case by (rule consistent_rt_initial)
next
  case (rt_setCategories s cs s')
  then show ?case by (auto simp: consistent_rt_def setCategories_rt_def)
next
  case (rt_setSelectedPlace s sel s')
  then show ?case by (auto simp: consistent_rt_def setSelectedPlace_rt_def)
qed (auto dest: consistent_rt_actions filterPlaces_rt_consistent)

lemma spread_rt_raw_of: "spread_rt (raw_of p) (updates_of u) = raw_of (spread p u)"
  by (simp add: spread_rt_def raw_of_def updates_of_def spread_def split: option.split)

lemma id_rt_raw_of: "id_rt (raw_of p) = Some (id_field p)"
  by (simp add: raw_of_def)

lemma filterPlaces_rt_state_of: "filterPlaces_rt (state_of s) = (state_of (filterPlaces s), None)"
  by (simp add: filterPlaces_rt_def state_of_def filterPlaces_def filtered_places_rt_raw_of)

lemma state_of_places_update:
  "(state_of s)\<lparr> places_rt := map raw_of ps \<rparr> = state_of (s\<lparr> places := ps \<rparr>)"
  by (simp add: state_of_def)

lemma actions_rt_state_of:
  "setPlaces_rt (map raw_of ps) (state_of s) = (state_of (setPlaces ps s), None)"
  "setSearchQuery_rt q (state_of s) = (state_of (setSearchQuery q s), None)"
  "setSelectedCategory_rt c (state_of s) = (state_of (setSelectedCategory c s), None)"
  "addPlace_rt (raw_of p) (state_of s) = (state_of (addPlace p s), None)"
  "updatePlace_rt i (updates_of u) (state_of s) = (state_of (updatePlace i u s), None)"
  "removePlace_rt i (state_of s) = (state_of (removePlace i s), None)"
proof -
  show "setPlaces_rt (map raw_of ps) (state_of s) = (state_of (setPlaces ps s), None)"
    by (simp add: setPlaces_rt_def setPlaces_def state_of_places_update filterPlaces_rt_state_of)
  have q: "(state_of s)\<lparr> searchQuery_rt := q \<rparr> = state_of (s\<lparr> searchQuery := q \<rparr>)"
    by (simp add: state_of_def)
  show "setSearchQuery_rt q (state_of s) = (state_of (setSearchQuery q s), None)"
    by (simp add: setSearchQuery_rt_def setSearchQuery_def q filterPlaces_rt_state_of)
  have c: "(state_of s)\<lparr> selectedCategoryId_rt := c \<rparr> = state_of (s\<lparr> selectedCategoryId := c \<rparr>)"
    by (simp add: state_of_def)
  show "setSelectedCategory_rt c (state_of s) = (state_of (setSelectedCategory c s), None)"
    by (simp add: setSelectedCategory_rt_def setSelectedCategory_def c filterPlaces_rt_state_of)
  have a: "places_rt (state_of s) @ [raw_of p] = map raw_of (places s @ [p])"
    by (simp add: state_of_def)
  show "addPlace_rt (raw_of p) (state_of s) = (state_of (addPlace p s), None)"
    unfolding addPlace_rt_def addPlace_def a state_of_places_update
    by (rule filterPlaces_rt_state_of)
  have u: "map (\<lambda>place. if id_rt place = Some i then spread_rt place (updates_of u) else place)
             (places_rt (state_of s))
           = map raw_of
               (map (\<lambda>place. if id_field place = i then spread place u else place) (places s))"
    by (simp add: state_of_def id_rt_raw_of spread_rt_raw_of)
  show "updatePlace_rt i (updates_of u) (state_of s) = (state_of (updatePlace i u s), None)"
    unfolding updatePlace_rt_def updatePlace_def Let_def u state_of_places_update
    by (rule filterPlaces_rt_state_of)
  have r: "filter (\<lambda>place. id_rt place \<noteq> Some i) (places_rt (state_of s))
           = map raw_of (filter (\<lambda>place. id_field place \<noteq> i) (places s))"
    by (simp add: state_of_def filter_map comp_def id_rt_raw_of)
  show "removePlace_rt i (state_of s) = (state_of (removePlace i s), None)"
    unfolding removePlace_rt_def removePlace_def Let_def r state_of_places_update
    by (rule filterPlaces_rt_state_of)
qed

lemma places_exampleRun: "places exampleRun = [hahoe, jjimdak, closed_spot]"
  by (simp add: exampleRun_def setSearchQuery_def addPlace_def filterPlaces_def
      initialState_def)

lemma places_rt_exampleRun:
  "places_rt exampleRun_rt = [raw_of hahoe, raw_of jjimdak, raw_of closed_spot]"
  by (simp add: exampleRun_rt_def state_of_def places_exampleRun)

lemma reachable_rt_exampleRun: "reachable_rt exampleRun_rt"
proof -
  let ?s0 = "initialState_rt :: unit RawState"
  have i: "state_of (initialState :: unit PlaceState) = ?s0"
    by (simp add: state_of_def initialState_def initialState_rt_def)
  have "reachable_rt (state_of (initialState :: unit PlaceState))"
    unfolding i by (rule rt_init)
  then have "reachable_rt (state_of (addPlace hahoe (initialState :: unit PlaceState)))"
    by (rule rt_addPlace) (rule actions_rt_state_of)
  then have "reachable_rt (state_of (addPlace jjimdak (addPlace hahoe (initialState :: unit PlaceState))))"
    by (rule rt_addPlace) (rule actions_rt_state_of)
  then have "reachable_rt (state_of (addPlace closed_spot
      (addPlace jjimdak (addPlace hahoe (initialState :: unit PlaceState)))))"
    by (rule rt_addPlace) (rule actions_rt_state_of)
  then have "reachable_rt (state_of (setSearchQuery ''andong'' (addPlace closed_spot
      (addPlace jjimdak (addPlace hahoe (initialState :: unit PlaceState))))))"
    by (rule rt_setSearchQuery) (rule actions_rt_state_of)
  then show ?thesis
    by (simp add: exampleRun_rt_def exampleRun_def)
qed

text \<open>
  Claim C9, as amended. Each of \<^verbatim>\<open>setPlaces\<close>, \<^verbatim>\<open>setSearchQuery\<close>,
  \<^verbatim>\<open>setSelectedCategory\<close>, \<^verbatim>\<open>addPlace\<close>, \<^verbatim>\<open>updatePlace\<close> and
  \<^verbatim>\<open>removePlace\<close>, when it completes without an exception, leaves \<open>filteredPlaces\<close>
  equal to the filter of the current \<open>places\<close>, \<open>searchQuery\<close> and
  \<open>selectedCategoryId\<close>, and this holds in every state reached from the initial one by
  actions that complete. An action completes when every place of the list it stores has
  a name and an address: so for \<^verbatim>\<open>updatePlace\<close> when the updates hold no
  \<^verbatim>\<open>undefined\<close> for these two keys, and for every action on well-typed arguments,
  where the run-time model does what the typed model does.
\<close>

theorem cached_view_follows_inputs:
  "(setPlaces_rt ps s = (s', None) \<longrightarrow> consistent_rt s')
   \<and> (setSearchQuery_rt q s = (s', None) \<longrightarrow> consistent_rt s')
   \<and> (setSelectedCategory_rt c s = (s', None) \<longrightarrow> consistent_rt s')
   \<and> (addPlace_rt p s = (s', None) \<longrightarrow> consistent_rt s')
   \<and> (updatePlace_rt i u s = (s', None) \<longrightarrow> consistent_rt s')
   \<and> (removePlace_rt i s = (s', None) \<longrightarrow> consistent_rt s')
   \<and> (reachable_rt s \<longrightarrow> consistent_rt s)
   \<and> ((\<forall>x \<in> set ps. named x) \<longrightarrow> snd (setPlaces_rt ps s) = None)
   \<and> ((\<forall>x \<in> set (places_rt s). named x) \<longrightarrow>
        snd (setSearchQuery_rt q s) = None
        \<and> snd (setSelectedCategory_rt c s) = None
        \<and> snd (removePlace_rt i s) = None
        \<and> (named p \<longrightarrow> snd (addPlace_rt p s) = None)
        \<and> (v_name u \<noteq> Some None \<and> v_address u \<noteq> Some None \<longrightarrow>
             snd (updatePlace_rt i u s) = None))
   \<and> setPlaces_rt (map raw_of tps) (state_of ts) = (state_of (setPlaces tps ts), None)
   \<and> setSearchQuery_rt q (state_of ts) = (state_of (setSearchQuery q ts), None)
   \<and> setSelectedCategory_rt c (state_of ts) = (state_of (setSelectedCategory c ts), None)
   \<and> addPlace_rt (raw_of tp) (state_of ts) = (state_of (addPlace tp ts), None)
   \<and> updatePlace_rt i (updates_of tu) (state_of ts) = (state_of (updatePlace i tu ts), None)
   \<and> removePlace_rt i (state_of ts) = (state_of (removePlace i ts), None)"
  by (simp add: consistent_rt_actions reachable_rt_consistent completes_actions
      completes_updatePlace actions_rt_state_of)

theorem cached_view_follows_inputs_witness:
  "reachable_rt exampleRun_rt
   \<and> filtered_places_rt (places_rt exampleRun_rt) (searchQuery_rt exampleRun_rt)
        (selectedCategoryId_rt exampleRun_rt) = Inr [raw_of hahoe, raw_of jjimdak]
   \<and> filteredPlaces_rt exampleRun_rt = [raw_of hahoe, raw_of jjimdak]
   \<and> named (raw_of hahoe) \<and> named (raw_of jjimdak) \<and> named (raw_of closed_spot)
   \<and> v_name closeUpdate_rt \<noteq> Some None \<and> v_address closeUpdate_rt \<noteq> Some None
   \<and> snd (updatePlace_rt ''p2'' closeUpdate_rt exampleRun_rt) = None
   \<and> filteredPlaces_rt (fst (updatePlace_rt ''p2'' closeUpdate_rt exampleRun_rt))
       = [raw_of hahoe]
   \<and> consistent_rt (fst (updatePlace_rt ''p2'' closeUpdate_rt exampleRun_rt))"
proof -
  let ?s1 = "fst (updatePlace_rt ''p2'' closeUpdate_rt exampleRun_rt)"
  note r = reachable_rt_exampleRun
  note t = cached_view_follows_inputs
    [of "[]" exampleRun_rt ?s1 "[]" None "raw_of hahoe" "''p2''" closeUpdate_rt
      "[]" "initialState :: unit PlaceState" hahoe noUpdates]
  have n: "named (raw_of hahoe)" "named (raw_of jjimdak)" "named (raw_of closed_spot)"
    by (simp_all add: named_def raw_of_def)
  have v: "v_name closeUpdate_rt \<noteq> Some None" "v_address closeUpdate_rt \<noteq> Some None"
    by (simp_all add: closeUpdate_rt_def updates_of_def closeUpdate_def noUpdates_def)
  have all: "\<forall>x \<in> set (places_rt exampleRun_rt). named x"
    by (simp add: places_rt_exampleRun n)
  have c0: "consistent_rt exampleRun_rt"
    using t r by blast
  have fin: "snd (updatePlace_rt ''p2'' closeUpdate_rt exampleRun_rt) = None"
    using t all v by blast
  then have "updatePlace_rt ''p2'' closeUpdate_rt exampleRun_rt = (?s1, None)"
    by (simp add: prod_eq_iff)
  with t have c1: "consistent_rt ?s1"
    by blast
  have ev: "filteredPlaces_rt exampleRun_rt = [raw_of hahoe, raw_of jjimdak]
      \<and> filteredPlaces_rt ?s1 = [raw_of hahoe]"
    by code_simp
  show ?thesis
    using r c0 c1 fin ev n v by (simp add: consistent_rt_def)
qed

text \<open>
  The claim as it was worded, for every action, fails: \<^verbatim>\<open>updatePlace\<close> with the name
  present and \<^verbatim>\<open>undefined\<close> stores the new list, the filter then throws at the place
  without a name, and \<open>filteredPlaces\<close> keeps the old view, which even holds a place
  that is no longer in \<open>places\<close>.
\<close>

theorem stale_view_after_undefined_name:
  "reachable_rt exampleRun_rt \<and> consistent_rt exampleRun_rt
   \<and> snd (updatePlace_rt ''p2'' nameUndefined exampleRun_rt) = Some TypeError
   \<and> places_rt (fst (updatePlace_rt ''p2'' nameUndefined exampleRun_rt))
       = [raw_of hahoe, (raw_of jjimdak) \<lparr> name_rt := None \<rparr>, raw_of closed_spot]
   \<and> filteredPlaces_rt (fst (updatePlace_rt ''p2'' nameUndefined exampleRun_rt))
       = [raw_of hahoe, raw_of jjimdak]
   \<and> raw_of jjimdak \<notin> set (places_rt (fst (updatePlace_rt ''p2'' nameUndefined exampleRun_rt)))
   \<and> filtered_places_rt
        (places_rt (fst (updatePlace_rt ''p2'' nameUndefined exampleRun_rt)))
        (searchQuery_rt (fst (updatePlace_rt ''p2'' nameUndefined exampleRun_rt)))
        (selectedCategoryId_rt (fst (updatePlace_rt ''p2'' nameUndefined exampleRun_rt)))
       = Inl TypeError
   \<and> \<not> consistent_rt (fst (updatePlace_rt ''p2'' nameUndefined exampleRun_rt))"
proof -
  have ev: "snd (updatePlace_rt ''p2'' nameUndefined exampleRun_rt) = Some TypeError
     \<and> places_rt (fst (updatePlace_rt ''p2'' nameUndefined exampleRun_rt))
         = [raw_of hahoe, (raw_of jjimdak) \<lparr> name_rt := None \<rparr>, raw_of closed_spot]
     \<and> filteredPlaces_rt (fst (updatePlace_rt ''p2'' nameUndefined exampleRun_rt))
         = [raw_of hahoe, raw_of jjimdak]
     \<and> raw_of jjimdak \<notin> set (places_rt (fst (updatePlace_rt ''p2'' nameUndefined exampleRun_rt)))
     \<and> filtered_places_rt
          (places_rt (fst (updatePlace_rt ''p2'' nameUndefined exampleRun_rt)))
          (searchQuery_rt (fst (updatePlace_rt ''p2'' nameUndefined exampleRun_rt)))
          (selectedCategoryId_rt (fst (updatePlace_rt ''p2'' nameUndefined exampleRun_rt)))
         = Inl TypeError
     \<and> \<not> consistent_rt (fst (updatePlace_rt ''p2'' nameUndefined exampleRun_rt))"
    by code_simp
  show ?thesis
    using reachable_rt_exampleRun reachable_rt_consistent [OF reachable_rt_exampleRun] ev
    by blast
qed

section \<open>updatePlace\<close>

lemma places_updatePlace:
  "places (updatePlace i u s)
     = map (\<lambda>place. if id_field place = i then spread place u else place) (places s)"
  by (simp add: updatePlace_def filterPlaces_def Let_def)

lemma map_update_absent:
  "\<forall>p \<in> set ps. id_field p \<noteq> i \<Longrightarrow>
     map (\<lambda>place. if id_field place = i then spread place u else place) ps = ps"
  by (induction ps) auto

lemma spread_fields:
  "id_field (spread p u) = (case u_id u of None \<Rightarrow> id_field p | Some v \<Rightarrow> v)"
  "name (spread p u) = (case u_name u of None \<Rightarrow> name p | Some v \<Rightarrow> v)"
  "address (spread p u) = (case u_address u of None \<Rightarrow> address p | Some v \<Rightarrow> v)"
  "description (spread p u) = (case u_description u of None \<Rightarrow> description p | Some v \<Rightarrow> v)"
  "cuisine (spread p u) = (case u_cuisine u of None \<Rightarrow> cuisine p | Some v \<Rightarrow> v)"
  "categoryId (spread p u) = (case u_categoryId u of None \<Rightarrow> categoryId p | Some v \<Rightarrow> v)"
  "isActive (spread p u) = (case u_isActive u of None \<Rightarrow> isActive p | Some v \<Rightarrow> v)"
  "latitude (spread p u) = (case u_latitude u of None \<Rightarrow> latitude p | Some v \<Rightarrow> v)"
  "longitude (spread p u) = (case u_longitude u of None \<Rightarrow> longitude p | Some v \<Rightarrow> v)"
  by (simp_all add: spread_def)

text \<open>
  Claim C10. \<^verbatim>\<open>updatePlace\<close> keeps the length of \<open>places\<close>; at every position, a
  place whose id is the given one is replaced by the merge of the updates into it, and any
  other place is left as it is; the merge takes each field from the updates when they
  have it and from the place otherwise; and when no place has the given id the list is
  unchanged.
\<close>

theorem updatePlace_changes_only_matching:
  "length (places (updatePlace i u s)) = length (places s)
   \<and> (\<forall>k < length (places s).
        places (updatePlace i u s) ! k
          = (if id_field (places s ! k) = i then spread (places s ! k) u else places s ! k))
   \<and> ((\<forall>p \<in> set (places s). id_field p \<noteq> i) \<longrightarrow> places (updatePlace i u s) = places s)
   \<and> id_field (spread p u) = (case u_id u of None \<Rightarrow> id_field p | Some v \<Rightarrow> v)
   \<and> name (spread p u) = (case u_name u of None \<Rightarrow> name p | Some v \<Rightarrow> v)
   \<and> address (spread p u) = (case u_address u of None \<Rightarrow> address p | Some v \<Rightarrow> v)
   \<and> description (spread p u)
       = (case u_description u of None \<Rightarrow> description p | Some v \<Rightarrow> v)
   \<and> cuisine (spread p u) = (case u_cuisine u of None \<Rightarrow> cuisine p | Some v \<Rightarrow> v)
   \<and> categoryId (spread p u)
       = (case u_categoryId u of None \<Rightarrow> categoryId p | Some v \<Rightarrow> v)
   \<and> isActive (spread p u) = (case u_isActive u of None \<Rightarrow> isActive p | Some v \<Rightarrow> v)
   \<and> latitude (spread p u) = (case u_latitude u of None \<Rightarrow> latitude p | Some v \<Rightarrow> v)
   \<and> longitude (spread p u) = (case u_longitude u of None \<Rightarrow> longitude p | Some v \<Rightarrow> v)"
  by (simp add: places_updatePlace map_update_absent spread_fields)

theorem updatePlace_changes_only_matching_witness:
  "places exampleRun = [hahoe, jjimdak, closed_spot]
   \<and> length (places (updatePlace ''p2'' closeUpdate exampleRun)) = 3
   \<and> places (updatePlace ''p2'' closeUpdate exampleRun) ! 0 = hahoe
   \<and> places (updatePlace ''p2'' closeUpdate exampleRun) ! 1
       = jjimdak \<lparr> cuisine := None, isActive := False \<rparr>
   \<and> places (updatePlace ''p2'' closeUpdate exampleRun) ! 2 = closed_spot
   \<and> ''zz'' \<notin> set (map id_field (places exampleRun))
   \<and> places (updatePlace ''zz'' closeUpdate exampleRun) = places exampleRun"
proof -
  note ps = places_exampleRun
  have ids: "id_field hahoe = ''p1''" "id_field jjimdak = ''p2''" "id_field closed_spot = ''p3''"
    by (simp_all add: hahoe_def jjimdak_def closed_spot_def)
  have sp: "spread jjimdak closeUpdate = jjimdak \<lparr> cuisine := None, isActive := False \<rparr>"
    by (simp add: spread_def closeUpdate_def noUpdates_def jjimdak_def)
  note c = updatePlace_changes_only_matching [of "''p2''" closeUpdate exampleRun hahoe]
  note z = updatePlace_changes_only_matching [of "''zz''" closeUpdate exampleRun hahoe]
  have l: "length (places (updatePlace ''p2'' closeUpdate exampleRun)) = 3"
    using c ps by simp
  have e: "k < 3 \<Longrightarrow> places (updatePlace ''p2'' closeUpdate exampleRun) ! k
          = (if id_field ([hahoe, jjimdak, closed_spot] ! k) = ''p2''
             then spread ([hahoe, jjimdak, closed_spot] ! k) closeUpdate
             else [hahoe, jjimdak, closed_spot] ! k)" for k
    using c ps by simp
  have a: "\<forall>p \<in> set (places exampleRun). id_field p \<noteq> ''zz''"
    using ps ids by simp
  have "places (updatePlace ''zz'' closeUpdate exampleRun) = places exampleRun"
    using z a by blast
  then show ?thesis
    using ps l e [of 0] e [of 1] e [of 2] ids sp by simp
qed

end
